theory Spec2Isabelle
  imports Main "HOL-Library.Word" "HOL-Library.Signed_Division"
begin

section \<open>The faucet of main.go\<close>

text \<open>
  The program is one Go file. It keeps a table of the last disbursement per request
  string (\<open>usedAddresses\<close>), and \<open>SendTokens\<close> validates the string, checks the
  table, asks the node for nonce, gas price and gas estimate, signs, submits, and records
  the time. The node, the clock, the signing library and the process environment are
  outside the program: they are the fields of the records \<open>World\<close> and \<open>Startup\<close>,
  and every theorem holds for all of them. The lock \<open>mu\<close> is left out: one call is
  modelled at a time.
\<close>

subsection \<open>Addresses (go-ethereum, package common)\<close>

type_synonym byte = "8 word"
type_synonym Address = "byte list"

definition AddressLength :: nat where
  "AddressLength = 20"

definition has0xPrefix :: "string \<Rightarrow> bool" where
  "has0xPrefix str \<longleftrightarrow>
     length str \<ge> 2 \<and> str ! 0 = CHR ''0'' \<and> (str ! 1 = CHR ''x'' \<or> str ! 1 = CHR ''X'')"

definition isHexCharacter :: "char \<Rightarrow> bool" where
  "isHexCharacter c \<longleftrightarrow>
     ((of_char CHR ''0'' :: nat) \<le> of_char c \<and> (of_char c :: nat) \<le> of_char CHR ''9'') \<or>
     ((of_char CHR ''a'' :: nat) \<le> of_char c \<and> (of_char c :: nat) \<le> of_char CHR ''f'') \<or>
     ((of_char CHR ''A'' :: nat) \<le> of_char c \<and> (of_char c :: nat) \<le> of_char CHR ''F'')"

definition isHex :: "string \<Rightarrow> bool" where
  "isHex str \<longleftrightarrow> (if length str mod 2 \<noteq> 0 then False else list_all isHexCharacter str)"

definition IsHexAddress :: "string \<Rightarrow> bool" where
  "IsHexAddress s \<longleftrightarrow>
     (let s' = (if has0xPrefix s then drop 2 s else s)
      in length s' = 2 * AddressLength \<and> isHex s')"

text \<open>The digit table of encoding/hex: the value of a hexadecimal digit, or nothing.\<close>

definition fromHexChar :: "char \<Rightarrow> nat option" where
  "fromHexChar c =
     (let n = (of_char c :: nat) in
      if of_char CHR ''0'' \<le> n \<and> n \<le> of_char CHR ''9'' then Some (n - of_char CHR ''0'')
      else if of_char CHR ''a'' \<le> n \<and> n \<le> of_char CHR ''f'' then Some (n - of_char CHR ''a'' + 10)
      else if of_char CHR ''A'' \<le> n \<and> n \<le> of_char CHR ''F'' then Some (n - of_char CHR ''A'' + 10)
      else None)"

text \<open>
  \<open>Hex2Bytes\<close> drops the error of \<open>hex.DecodeString\<close> and keeps the bytes decoded
  before the first bad digit; a trailing single digit is dropped as well.
\<close>

fun Hex2Bytes :: "string \<Rightarrow> byte list" where
  "Hex2Bytes (p # q # rest) =
     (case fromHexChar p of
        None \<Rightarrow> []
      | Some a \<Rightarrow>
          (case fromHexChar q of
             None \<Rightarrow> []
           | Some b \<Rightarrow> of_nat (a * 16 + b) # Hex2Bytes rest))"
| "Hex2Bytes _ = []"

definition FromHex :: "string \<Rightarrow> byte list" where
  "FromHex s =
     (let s1 = (if has0xPrefix s then drop 2 s else s);
          s2 = (if length s1 mod 2 = 1 then CHR ''0'' # s1 else s1)
      in Hex2Bytes s2)"

definition BytesToAddress :: "byte list \<Rightarrow> Address" where
  "BytesToAddress b =
     (let b' = (if length b > AddressLength then drop (length b - AddressLength) b else b)
      in replicate (AddressLength - length b') 0 @ b')"

definition HexToAddress :: "string \<Rightarrow> Address" where
  "HexToAddress s = BytesToAddress (FromHex s)"

subsection \<open>Durations and the clock (package time)\<close>

text \<open>
  A \<open>Duration\<close> is an int64 count of nanoseconds; \<open>int64\<close> is the wrap-around of
  Go's arithmetic on that type. A \<open>Time\<close> is a reading of the monotonic clock in
  nanoseconds.
\<close>

type_synonym Duration = int
type_synonym Time = int

definition minDuration :: Duration where
  "minDuration = - (2 ^ 63)"

definition maxDuration :: Duration where
  "maxDuration = 2 ^ 63 - 1"

definition is_int64 :: "int \<Rightarrow> bool" where
  "is_int64 x \<longleftrightarrow> minDuration \<le> x \<and> x \<le> maxDuration"

definition int64 :: "int \<Rightarrow> int" where
  "int64 x = (x + 2 ^ 63) mod 2 ^ 64 - 2 ^ 63"

definition uint64 :: "int \<Rightarrow> int" where
  "uint64 x = x mod 2 ^ 64"

definition Minute :: Duration where
  "Minute = 60 * 1000000000"

definition Hour :: Duration where
  "Hour = 60 * Minute"

text \<open>
  \<open>t.Sub(u)\<close>: the difference, or the largest (smallest) duration when the difference
  does not fit. \<open>time.Since(t)\<close> is \<open>time.Now().Sub(t)\<close>; the reading of the clock
  is the first argument here.
\<close>

definition time_Sub :: "Time \<Rightarrow> Time \<Rightarrow> Duration" where
  "time_Sub t u =
     (if t - u > maxDuration then maxDuration
      else if t - u < minDuration then minDuration
      else t - u)"

definition time_Since :: "Time \<Rightarrow> Time \<Rightarrow> Duration" where
  "time_Since now t = time_Sub now t"

definition lessThanHalf :: "Duration \<Rightarrow> Duration \<Rightarrow> bool" where
  "lessThanHalf x y \<longleftrightarrow> uint64 (uint64 x + uint64 x) < uint64 y"

text \<open>\<open>d.Round(m)\<close>; Go's \<open>%\<close> truncates towards zero, which is \<open>smod\<close>.\<close>

definition Duration_Round :: "Duration \<Rightarrow> Duration \<Rightarrow> Duration" where
  "Duration_Round d m =
     (if m \<le> 0 then d
      else
        let r = d smod m in
        if d < 0 then
          (let r' = - r in
           if lessThanHalf r' m then int64 (d + r')
           else
             let d1 = int64 (d - m + r') in
             if d1 < d then d1 else minDuration)
        else if lessThanHalf r m then int64 (d - r)
        else
          let d1 = int64 (d + m - r) in
          if d1 > d then d1 else maxDuration)"

subsection \<open>Decimal numbers (math/big and strconv)\<close>

definition isDigit :: "char \<Rightarrow> bool" where
  "isDigit c \<longleftrightarrow> (of_char CHR ''0'' :: nat) \<le> of_char c \<and> (of_char c :: nat) \<le> of_char CHR ''9''"

definition parse_digits :: "string \<Rightarrow> nat option" where
  "parse_digits s =
     (if s = [] \<or> \<not> list_all isDigit s then None
      else Some (foldl (\<lambda>n c. n * 10 + (of_char c - of_char CHR ''0'')) 0 s))"

text \<open>An optional sign, then one or more decimal digits, and nothing else.\<close>

definition parse_int :: "string \<Rightarrow> int option" where
  "parse_int s =
     (case s of
        [] \<Rightarrow> None
      | c # rest \<Rightarrow>
          if c = CHR ''-'' then map_option (\<lambda>n. - int n) (parse_digits rest)
          else if c = CHR ''+'' then map_option int (parse_digits rest)
          else map_option int (parse_digits s))"

text \<open>\<open>new(big.Int).SetString(s, 10)\<close>: the number and \<open>ok\<close>, here a value or nothing.\<close>

definition big_SetString :: "string \<Rightarrow> int option" where
  "big_SetString s = parse_int s"

text \<open>\<open>strconv.Atoi\<close> on a 64-bit platform: a syntax error, a range error, or the int.\<close>

definition Atoi :: "string \<Rightarrow> string + int" where
  "Atoi s =
     (case parse_int s of
        None \<Rightarrow> Inl ''invalid syntax''
      | Some n \<Rightarrow> if is_int64 n then Inr n else Inl ''value out of range'')"

text \<open>The decimal rendering of an integer, to name the string that denotes it.\<close>

definition digit_char :: "nat \<Rightarrow> char" where
  "digit_char d = char_of (of_char CHR ''0'' + d)"

fun decimal :: "nat \<Rightarrow> string" where
  "decimal n = (if n < 10 then [digit_char n] else decimal (n div 10) @ [digit_char (n mod 10)])"

definition Itoa :: "int \<Rightarrow> string" where
  "Itoa n = (if n < 0 then CHR ''-'' # decimal (nat (- n)) else decimal (nat n))"

subsection \<open>Errors\<close>

text \<open>
  An error of the program is the format string of its \<open>fmt.Errorf\<close> call with the
  arguments of the call. An error of a library is its message.
\<close>

datatype fmtarg = ArgString string | ArgError string | ArgDuration Duration

datatype error = Errorf string "fmtarg list"

text \<open>
  \<open>err.Error()\<close>: each verb \<open>%s\<close> or \<open>%v\<close> takes the next argument, and a verb
  without an argument prints as missing. The program uses no other verb. The text of a
  duration is \<open>Duration.String\<close>, a parameter here.
\<close>

fun show_arg :: "(Duration \<Rightarrow> string) \<Rightarrow> fmtarg \<Rightarrow> string" where
  "show_arg D (ArgString s) = s"
| "show_arg D (ArgError e) = e"
| "show_arg D (ArgDuration d) = D d"

fun Sprintf :: "(Duration \<Rightarrow> string) \<Rightarrow> string \<Rightarrow> fmtarg list \<Rightarrow> string" where
  "Sprintf D [] as = []"
| "Sprintf D [c] as = [c]"
| "Sprintf D (c # v # rest) as =
     (if c = CHR ''%'' \<and> (v = CHR ''v'' \<or> v = CHR ''s'') then
        (case as of
           [] \<Rightarrow> ''%!'' @ [v] @ ''(MISSING)'' @ Sprintf D rest []
         | a # as' \<Rightarrow> show_arg D a @ Sprintf D rest as')
      else c # Sprintf D (v # rest) as)"

fun Error :: "(Duration \<Rightarrow> string) \<Rightarrow> error \<Rightarrow> string" where
  "Error D (Errorf fmt as) = Sprintf D fmt as"

subsection \<open>Transactions, contexts and the outside world\<close>

datatype Client = Client string

type_synonym PrivateKey = nat

datatype PublicKey = ECDSA_PublicKey nat | Other_PublicKey

text \<open>
  A context as the node calls see it. The program only ever builds \<open>Background\<close>; the
  other constructors are the contexts of package context that carry a cancel function or
  a deadline.
\<close>

datatype Context = Background | WithCancel Context | WithTimeout Context Duration

fun has_deadline :: "Context \<Rightarrow> bool" where
  "has_deadline Background = False"
| "has_deadline (WithCancel c) = has_deadline c"
| "has_deadline (WithTimeout c d) = True"

fun cancellable :: "Context \<Rightarrow> bool" where
  "cancellable Background = False"
| "cancellable (WithCancel c) = True"
| "cancellable (WithTimeout c d) = True"

text \<open>\<open>ethereum.CallMsg\<close>; the fields the program does not set are zero and left out.\<close>

record CallMsg =
  From :: Address
  To :: "Address option"
  Value :: int

record Transaction =
  tx_nonce :: "64 word"
  tx_to :: "Address option"
  tx_amount :: int
  tx_gasLimit :: "64 word"
  tx_gasPrice :: int
  tx_data :: "byte list option"

definition NewTransaction ::
  "64 word \<Rightarrow> Address \<Rightarrow> int \<Rightarrow> 64 word \<Rightarrow> int \<Rightarrow> byte list option \<Rightarrow> Transaction" where
  "NewTransaction nonce to amount gasLimit gasPrice data =
     \<lparr>tx_nonce = nonce, tx_to = Some to, tx_amount = amount, tx_gasLimit = gasLimit,
      tx_gasPrice = gasPrice, tx_data = data\<rparr>"

datatype Signer = EIP155Signer int

definition NewEIP155Signer :: "int \<Rightarrow> Signer" where
  "NewEIP155Signer chainId = EIP155Signer chainId"

text \<open>A signed transaction: the transaction with the signature values.\<close>

datatype SignedTx = SignedTx Transaction int int int

text \<open>
  What the program reads from outside during one call: the answers of the node behind a
  client, the signing library, the hash of a signed transaction, and the clock.
  \<open>Now w l\<close> is the reading the clock returns at line \<open>l\<close> of main.go.
\<close>

record World =
  PendingNonceAt :: "Client \<Rightarrow> Context \<Rightarrow> Address \<Rightarrow> string + 64 word"
  SuggestGasPrice :: "Client \<Rightarrow> Context \<Rightarrow> string + int"
  EstimateGas :: "Client \<Rightarrow> Context \<Rightarrow> CallMsg \<Rightarrow> string + 64 word"
  SendTransaction :: "Client \<Rightarrow> Context \<Rightarrow> SignedTx \<Rightarrow> string option"
  BalanceAt :: "Client \<Rightarrow> Context \<Rightarrow> Address \<Rightarrow> int option \<Rightarrow> string + int"
  SignTx :: "Transaction \<Rightarrow> Signer \<Rightarrow> PrivateKey \<Rightarrow> string + SignedTx"
  HashHex :: "SignedTx \<Rightarrow> string"
  DurationString :: "Duration \<Rightarrow> string"
  Now :: "nat \<Rightarrow> Time"

text \<open>What one call does to the table, asks of the node and signs, in order.\<close>

datatype event =
    MapRead string
  | MapWrite string Time
  | Call_PendingNonceAt Client Context Address
  | Call_SuggestGasPrice Client Context
  | Call_EstimateGas Client Context CallMsg
  | Call_SendTransaction Client Context SignedTx
  | Call_BalanceAt Client Context Address
  | Call_SignTx Transaction Signer PrivateKey

fun is_ledger_call :: "event \<Rightarrow> bool" where
  "is_ledger_call (MapRead k) = False"
| "is_ledger_call (MapWrite k t) = False"
| "is_ledger_call (Call_SignTx tx s k) = False"
| "is_ledger_call _ = True"

fun call_context :: "event \<Rightarrow> Context option" where
  "call_context (MapRead k) = None"
| "call_context (MapWrite k t) = None"
| "call_context (Call_PendingNonceAt c ctx a) = Some ctx"
| "call_context (Call_SuggestGasPrice c ctx) = Some ctx"
| "call_context (Call_EstimateGas c ctx m) = Some ctx"
| "call_context (Call_SendTransaction c ctx s) = Some ctx"
| "call_context (Call_BalanceAt c ctx a) = Some ctx"
| "call_context (Call_SignTx tx s k) = None"

text \<open>The error a node call of the trace got from the node, if it got one.\<close>

fun call_failure :: "World \<Rightarrow> event \<Rightarrow> string option" where
  "call_failure w (MapRead k) = None"
| "call_failure w (MapWrite k t) = None"
| "call_failure w (Call_SignTx tx s k) = None"
| "call_failure w (Call_PendingNonceAt c ctx a) =
     (case PendingNonceAt w c ctx a of Inl err \<Rightarrow> Some err | Inr n \<Rightarrow> None)"
| "call_failure w (Call_SuggestGasPrice c ctx) =
     (case SuggestGasPrice w c ctx of Inl err \<Rightarrow> Some err | Inr p \<Rightarrow> None)"
| "call_failure w (Call_EstimateGas c ctx m) =
     (case EstimateGas w c ctx m of Inl err \<Rightarrow> Some err | Inr g \<Rightarrow> None)"
| "call_failure w (Call_SendTransaction c ctx s) = SendTransaction w c ctx s"
| "call_failure w (Call_BalanceAt c ctx a) =
     (case BalanceAt w c ctx a None of Inl err \<Rightarrow> Some err | Inr b \<Rightarrow> None)"

subsection \<open>The faucet\<close>

record Faucet =
  client :: Client
  privateKey :: PrivateKey
  fromAddress :: Address
  chainID :: int
  amount :: int
  usedAddresses :: "string \<rightharpoonup> Time"
  cooldown :: Duration

text \<open>What \<open>NewFaucet\<close> reads: the environment, the dial, the key library, the node.\<close>

record Startup =
  Getenv :: "string \<Rightarrow> string"
  Dial :: "string \<Rightarrow> string + Client"
  HexToECDSA :: "string \<Rightarrow> string + PrivateKey"
  Public :: "PrivateKey \<Rightarrow> PublicKey"
  PubkeyToAddress :: "nat \<Rightarrow> Address"
  ChainID :: "Client \<Rightarrow> Context \<Rightarrow> string + int"

definition NewFaucet :: "Startup \<Rightarrow> error + Faucet" where
  "NewFaucet st =
     (let rpcURL = (if Getenv st ''RPC_URL'' = [] then ''http://localhost:8545''
                    else Getenv st ''RPC_URL'')
      in (case Dial st rpcURL of
        Inl err \<Rightarrow> Inl (Errorf ''failed to connect to Ethereum network: %v'' [ArgError err])
      | Inr cl \<Rightarrow>
        (let privateKeyHex = Getenv st ''PRIVATE_KEY'' in
        if privateKeyHex = [] then
          Inl (Errorf ''PRIVATE_KEY environment variable is required'' [])
        else (case HexToECDSA st privateKeyHex of
          Inl err \<Rightarrow> Inl (Errorf ''invalid private key: %v'' [ArgError err])
        | Inr key \<Rightarrow>
          (case Public st key of
             Other_PublicKey \<Rightarrow> Inl (Errorf ''error casting public key to ECDSA'' [])
           | ECDSA_PublicKey publicKeyECDSA \<Rightarrow>
             (let from = PubkeyToAddress st publicKeyECDSA in
             (case ChainID st cl Background of
               Inl err \<Rightarrow> Inl (Errorf ''failed to get chain ID: %v'' [ArgError err])
             | Inr cid \<Rightarrow>
               (let amountStr = (if Getenv st ''FAUCET_AMOUNT'' = [] then ''1000000000000000000''
                                else Getenv st ''FAUCET_AMOUNT'')
               in (case big_SetString amountStr of
                 None \<Rightarrow> Inl (Errorf ''invalid FAUCET_AMOUNT'' [])
               | Some amt \<Rightarrow>
                 (let cooldownStr = (if Getenv st ''COOLDOWN_HOURS'' = [] then ''24''
                                    else Getenv st ''COOLDOWN_HOURS'')
                 in (case Atoi cooldownStr of
                   Inl err \<Rightarrow> Inl (Errorf ''invalid COOLDOWN_HOURS'' [])
                 | Inr cooldownHours \<Rightarrow>
                   Inr \<lparr>client = cl, privateKey = key, fromAddress = from, chainID = cid,
                        amount = amt, usedAddresses = Map.empty,
                        cooldown = int64 (cooldownHours * Hour)\<rparr>)))))))))))"

text \<open>
  \<open>SendTokens\<close> returns the result, the faucet after the call, and what the call did.
  The clock is read at line 128 and again at line 129 when an entry exists, and at line
  181 when the transaction was sent.
\<close>

definition SendTokens ::
  "World \<Rightarrow> Faucet \<Rightarrow> string \<Rightarrow> (error + SignedTx) \<times> Faucet \<times> event list" where
  "SendTokens w f toAddress =
     (if \<not> IsHexAddress toAddress then (Inl (Errorf ''invalid Ethereum address'' []), f, [])
      else
        (let lookup = usedAddresses f toAddress;
            t0 = [MapRead toAddress];
            blocked = (case lookup of
                         None \<Rightarrow> None
                       | Some lastUsed \<Rightarrow>
                           if time_Since (Now w 128) lastUsed < cooldown f
                           then Some (int64 (cooldown f - time_Since (Now w 129) lastUsed))
                           else None)
        in (case blocked of
          Some remaining \<Rightarrow>
            (Inl (Errorf ''address %s can request again in %v''
                    [ArgString toAddress, ArgDuration (Duration_Round remaining Minute)]), f, t0)
        | None \<Rightarrow>
          (let t1 = t0 @ [Call_PendingNonceAt (client f) Background (fromAddress f)] in
          (case PendingNonceAt w (client f) Background (fromAddress f) of
            Inl err \<Rightarrow> (Inl (Errorf ''failed to get nonce: %v'' [ArgError err]), f, t1)
          | Inr nonce \<Rightarrow>
            (let t2 = t1 @ [Call_SuggestGasPrice (client f) Background] in
            (case SuggestGasPrice w (client f) Background of
              Inl err \<Rightarrow> (Inl (Errorf ''failed to get gas price: %v'' [ArgError err]), f, t2)
            | Inr gasPrice \<Rightarrow>
              (let to = HexToAddress toAddress;
                  msg = \<lparr>From = fromAddress f, To = Some to, Value = amount f\<rparr>;
                  t3 = t2 @ [Call_EstimateGas (client f) Background msg]
              in (case EstimateGas w (client f) Background msg of
                Inl err \<Rightarrow> (Inl (Errorf ''failed to estimate gas: %v'' [ArgError err]), f, t3)
              | Inr gas \<Rightarrow>
                (let tx = NewTransaction nonce (HexToAddress toAddress) (amount f) gas gasPrice None;
                     ts = t3 @ [Call_SignTx tx (NewEIP155Signer (chainID f)) (privateKey f)]
                in (case SignTx w tx (NewEIP155Signer (chainID f)) (privateKey f) of
                  Inl err \<Rightarrow>
                    (Inl (Errorf ''failed to sign transaction: %v'' [ArgError err]), f, ts)
                | Inr signedTx \<Rightarrow>
                  (let t4 = ts @ [Call_SendTransaction (client f) Background signedTx] in
                  (case SendTransaction w (client f) Background signedTx of
                    Some err \<Rightarrow>
                      (Inl (Errorf ''failed to send transaction: %v'' [ArgError err]), f, t4)
                  | None \<Rightarrow>
                    (Inr signedTx,
                     f\<lparr>usedAddresses := (usedAddresses f)(toAddress \<mapsto> Now w 181)\<rparr>,
                     t4 @ [MapWrite toAddress (Now w 181)]))))))))))))))"

definition GetBalance :: "World \<Rightarrow> Faucet \<Rightarrow> (string + int) \<times> event list" where
  "GetBalance w f =
     (case BalanceAt w (client f) Background (fromAddress f) None of
        Inl err \<Rightarrow> (Inl err, [Call_BalanceAt (client f) Background (fromAddress f)])
      | Inr balance \<Rightarrow> (Inr balance, [Call_BalanceAt (client f) Background (fromAddress f)]))"

text \<open>
  The handler of \<open>POST /request\<close> in \<open>main\<close>: the HTTP status and the JSON body. Its
  argument is what \<open>ShouldBindJSON\<close> gave, an error or the address of the request.
\<close>

record Response =
  Success :: bool
  Message :: string
  TxHash :: string

definition StatusOK :: nat where
  "StatusOK = 200"

definition StatusBadRequest :: nat where
  "StatusBadRequest = 400"

definition request_handler ::
  "World \<Rightarrow> Faucet \<Rightarrow> string + string \<Rightarrow> (nat \<times> Response) \<times> Faucet \<times> event list" where
  "request_handler w f bound =
     (case bound of
        Inl err \<Rightarrow>
          ((StatusBadRequest,
            \<lparr>Success = False, Message = ''Invalid request format'', TxHash = []\<rparr>), f, [])
      | Inr address \<Rightarrow>
          (case SendTokens w f address of
             (Inl err, f', tr) \<Rightarrow>
               ((StatusBadRequest,
                 \<lparr>Success = False, Message = Error (DurationString w) err, TxHash = []\<rparr>), f', tr)
           | (Inr tx, f', tr) \<Rightarrow>
               ((StatusOK,
                 \<lparr>Success = True, Message = ''Tokens sent successfully!'', TxHash = HashHex w tx\<rparr>),
                f', tr)))"

subsection \<open>Faucets and worlds to run them in\<close>

text \<open>
  The scenario of the specification: a cooldown of one hour and an amount of 1000 units.
  In \<open>world_up t\<close> the node answers every call and the clock stands at \<open>t\<close>; in
  \<open>world_down t\<close> the node does not answer the gas price request.
\<close>

definition addr_lower :: string where
  "addr_lower = ''0xaaaaaaaaaaaaaaaaaaaaaaaaaaaaaaaaaaaaaaaa''"

definition addr_upper :: string where
  "addr_upper = ''0xAAAAAAAAAAAAAAAAAAAAAAAAAAAAAAAAAAAAAAAA''"

definition addr_noprefix :: string where
  "addr_noprefix = ''aaaaaaaaaaaaaaaaaaaaaaaaaaaaaaaaaaaaaaaa''"

definition addr_other :: string where
  "addr_other = ''0xbbbbbbbbbbbbbbbbbbbbbbbbbbbbbbbbbbbbbbbb''"

definition faucet0 :: Faucet where
  "faucet0 =
     \<lparr>client = Client ''http://localhost:8545'', privateKey = 1, fromAddress = replicate 20 1,
      chainID = 5, amount = 1000, usedAddresses = Map.empty, cooldown = Hour\<rparr>"

definition faucet1 :: Faucet where
  "faucet1 = faucet0\<lparr>usedAddresses := [addr_lower \<mapsto> 0]\<rparr>"

definition faucet_neg :: Faucet where
  "faucet_neg = faucet1\<lparr>cooldown := int64 (- 5 * Hour)\<rparr>"

definition world_up :: "Time \<Rightarrow> World" where
  "world_up t =
     \<lparr>PendingNonceAt = (\<lambda>c ctx a. Inr 7),
      SuggestGasPrice = (\<lambda>c ctx. Inr 2),
      EstimateGas = (\<lambda>c ctx m. Inr 21000),
      SendTransaction = (\<lambda>c ctx s. None),
      BalanceAt = (\<lambda>c ctx a b. Inr 5000),
      SignTx = (\<lambda>tx s k. Inr (SignedTx tx 45 1 1)),
      HashHex = (\<lambda>s. ''0x1234''),
      DurationString = (\<lambda>d. ''30m0s''),
      Now = (\<lambda>l. t)\<rparr>"

definition world_down :: "Time \<Rightarrow> World" where
  "world_down t = (world_up t)\<lparr>SuggestGasPrice := (\<lambda>c ctx. Inl ''connection refused'')\<rparr>"

definition startup0 :: "string \<Rightarrow> string \<Rightarrow> Startup" where
  "startup0 amountStr cooldownStr =
     \<lparr>Getenv = (\<lambda>k. if k = ''PRIVATE_KEY'' then ''01''
                     else if k = ''FAUCET_AMOUNT'' then amountStr
                     else if k = ''COOLDOWN_HOURS'' then cooldownStr
                     else []),
      Dial = (\<lambda>url. Inr (Client url)),
      HexToECDSA = (\<lambda>h. Inr 1),
      Public = (\<lambda>k. ECDSA_PublicKey k),
      PubkeyToAddress = (\<lambda>k. replicate 20 1),
      ChainID = (\<lambda>c ctx. Inr 5)\<rparr>"

text \<open>The strings \<open>NewFaucet\<close> parses, after the defaults for empty ones.\<close>

definition amountStr :: "Startup \<Rightarrow> string" where
  "amountStr st = (if Getenv st ''FAUCET_AMOUNT'' = [] then ''1000000000000000000''
                   else Getenv st ''FAUCET_AMOUNT'')"

definition cooldownStr :: "Startup \<Rightarrow> string" where
  "cooldownStr st = (if Getenv st ''COOLDOWN_HOURS'' = [] then ''24''
                     else Getenv st ''COOLDOWN_HOURS'')"

text \<open>
  The address format in words, to compare \<open>IsHexAddress\<close> with: forty hexadecimal
  digits, alone or after the prefix \<open>0x\<close> or \<open>0X\<close>.
\<close>

definition address_syntax :: "string \<Rightarrow> bool" where
  "address_syntax s \<longleftrightarrow>
     (length s = 40 \<and> set s \<subseteq> set ''0123456789abcdefABCDEF'') \<or>
     (length s = 42 \<and> (take 2 s = ''0x'' \<or> take 2 s = ''0X'') \<and>
      set (drop 2 s) \<subseteq> set ''0123456789abcdefABCDEF'')"


section \<open>Running the examples\<close>

declare decimal.simps [simp del]

lemma IsHexAddress_addr_lower: "IsHexAddress addr_lower"
  by (simp add: addr_lower_def IsHexAddress_def has0xPrefix_def isHex_def isHexCharacter_def
      AddressLength_def)

lemma IsHexAddress_addr_upper: "IsHexAddress addr_upper"
  by (simp add: addr_upper_def IsHexAddress_def has0xPrefix_def isHex_def isHexCharacter_def
      AddressLength_def)

lemma HexToAddress_casing: "HexToAddress addr_upper = HexToAddress addr_lower"
  by (simp add: addr_lower_def addr_upper_def HexToAddress_def FromHex_def BytesToAddress_def
      has0xPrefix_def fromHexChar_def AddressLength_def)

lemma addr_upper_neq_lower: "addr_upper \<noteq> addr_lower"
  by (simp add: addr_lower_def addr_upper_def)

lemma addr_other_neq_lower: "addr_other \<noteq> addr_lower"
  by (simp add: addr_lower_def addr_other_def)

text \<open>The node is down for the gas price: the call stops there and the faucet is as before.\<close>

lemma run_world_down:
  "SendTokens (world_down 0) faucet0 addr_lower =
     (Inl (Errorf ''failed to get gas price: %v'' [ArgError ''connection refused'']), faucet0,
      [MapRead addr_lower, Call_PendingNonceAt (client faucet0) Background (fromAddress faucet0),
       Call_SuggestGasPrice (client faucet0) Background])"
  by (simp add: SendTokens_def IsHexAddress_addr_lower world_down_def world_up_def faucet0_def)

text \<open>The node answers: the first request for an address is served and recorded.\<close>

lemma run_world_up:
  "SendTokens (world_up t) faucet0 addr_lower =
     (Inr (SignedTx (NewTransaction 7 (HexToAddress addr_lower) 1000 21000 2 None) 45 1 1),
      faucet0\<lparr>usedAddresses := [addr_lower \<mapsto> t]\<rparr>,
      [MapRead addr_lower,
       Call_PendingNonceAt (client faucet0) Background (fromAddress faucet0),
       Call_SuggestGasPrice (client faucet0) Background,
       Call_EstimateGas (client faucet0) Background
         \<lparr>From = fromAddress faucet0, To = Some (HexToAddress addr_lower), Value = 1000\<rparr>,
       Call_SignTx (NewTransaction 7 (HexToAddress addr_lower) 1000 21000 2 None)
         (EIP155Signer 5) 1,
       Call_SendTransaction (client faucet0) Background
         (SignedTx (NewTransaction 7 (HexToAddress addr_lower) 1000 21000 2 None) 45 1 1),
       MapWrite addr_lower t])"
  by (simp add: SendTokens_def Let_def IsHexAddress_addr_lower world_up_def faucet0_def
      NewEIP155Signer_def)

section \<open>Failures of the node leave the table alone\<close>

text \<open>
  Claim C1. Whatever the address and the faucet: when a call that \<open>SendTokens\<close> made to
  the node (the pending nonce, the gas price, the gas estimate or the submission) came back
  with an error \<open>m\<close>, \<open>SendTokens\<close> returns an error whose only argument is \<open>m\<close>, so
  that its text ends with \<open>m\<close>, and the faucet after the call, with its whole cooldown
  table, is the faucet before the call.
\<close>

theorem SendTokens_ledger_failure:
  assumes "SendTokens w f A = (res, f', tr)" and "e \<in> set tr" and "call_failure w e = Some m"
  shows "(\<exists>fmt. res = Inl (Errorf fmt [ArgError m]) \<and>
                (\<exists>p. Error (DurationString w) (Errorf fmt [ArgError m]) = p @ m)) \<and>
         f' = f \<and> usedAddresses f' = usedAddresses f"
  using assms unfolding SendTokens_def
  by (auto simp: Let_def split: if_splits option.splits sum.splits)

theorem SendTokens_ledger_failure_witness:
  "fst (SendTokens (world_down 0) faucet0 addr_lower) =
     Inl (Errorf ''failed to get gas price: %v'' [ArgError ''connection refused'']) \<and>
   fst (snd (SendTokens (world_down 0) faucet0 addr_lower)) = faucet0"
proof -
  have h2: "Call_SuggestGasPrice (client faucet0) Background \<in> set
      [MapRead addr_lower, Call_PendingNonceAt (client faucet0) Background (fromAddress faucet0),
       Call_SuggestGasPrice (client faucet0) Background]"
    by simp
  have h3: "call_failure (world_down 0) (Call_SuggestGasPrice (client faucet0) Background) =
      Some ''connection refused''"
    by (simp add: world_down_def world_up_def)
  show ?thesis
    using SendTokens_ledger_failure [OF run_world_down h2 h3] by (simp add: run_world_down)
qed

section \<open>Malformed addresses\<close>

text \<open>What \<open>IsHexAddress\<close> accepts: forty hexadecimal digits, with or without \<open>0x\<close> or \<open>0X\<close>.\<close>

lemma IsHexAddress_iff:
  "IsHexAddress s \<longleftrightarrow>
     (\<exists>h. length h = 40 \<and> list_all isHexCharacter h \<and>
          (s = h \<or> s = ''0x'' @ h \<or> s = ''0X'' @ h))"
proof
  assume a: "IsHexAddress s"
  show "\<exists>h. length h = 40 \<and> list_all isHexCharacter h \<and> (s = h \<or> s = ''0x'' @ h \<or> s = ''0X'' @ h)"
  proof (cases "has0xPrefix s")
    case False
    then show ?thesis
      using a by (auto simp: IsHexAddress_def isHex_def AddressLength_def)
  next
    case True
    then obtain rest where s: "s = CHR ''0'' # CHR ''x'' # rest \<or> s = CHR ''0'' # CHR ''X'' # rest"
      by (cases s; cases "tl s") (auto simp: has0xPrefix_def)
    then have "length rest = 40 \<and> list_all isHexCharacter rest"
      using a True by (auto simp: IsHexAddress_def isHex_def AddressLength_def)
    then show ?thesis using s by auto
  qed
next
  assume "\<exists>h. length h = 40 \<and> list_all isHexCharacter h \<and> (s = h \<or> s = ''0x'' @ h \<or> s = ''0X'' @ h)"
  then obtain h where h: "length h = 40" "list_all isHexCharacter h"
    and s: "s = h \<or> s = ''0x'' @ h \<or> s = ''0X'' @ h" by blast
  have nx: "\<not> isHexCharacter CHR ''x''" "\<not> isHexCharacter CHR ''X''"
    by (simp_all add: isHexCharacter_def)
  have np: "\<not> has0xPrefix h"
  proof
    assume p: "has0xPrefix h"
    then obtain c d rest where hd: "h = c # d # rest" and d: "d = CHR ''x'' \<or> d = CHR ''X''"
      by (cases h; cases "tl h") (auto simp: has0xPrefix_def)
    then show False using h(2) nx by auto
  qed
  from s show "IsHexAddress s"
  proof (elim disjE)
    assume "s = h"
    then show ?thesis using h np by (simp add: IsHexAddress_def isHex_def AddressLength_def)
  next
    assume "s = ''0x'' @ h"
    then show ?thesis using h
      by (simp add: IsHexAddress_def isHex_def AddressLength_def has0xPrefix_def)
  next
    assume "s = ''0X'' @ h"
    then show ?thesis using h
      by (simp add: IsHexAddress_def isHex_def AddressLength_def has0xPrefix_def)
  qed
qed

text \<open>\<open>IsHexAddress\<close> accepts exactly the strings of the format in words.\<close>

lemma digits_in_range:
  "list_all (\<lambda>n. char_of n \<in> set ''0123456789abcdefABCDEF'') ([48..<58] @ [97..<103] @ [65..<71])"
  by code_simp

lemma isHexCharacter_iff: "isHexCharacter c \<longleftrightarrow> c \<in> set ''0123456789abcdefABCDEF''"
proof
  assume "c \<in> set ''0123456789abcdefABCDEF''"
  then show "isHexCharacter c" by (auto simp: isHexCharacter_def)
next
  assume a: "isHexCharacter c"
  define n where "n = (of_char c :: nat)"
  have c: "c = char_of n" by (simp add: n_def)
  have "n \<in> set ([48..<58] @ [97..<103] @ [65..<71])"
    using a by (simp only: isHexCharacter_def n_def [symmetric] set_append set_upt Un_iff
        atLeastLessThan_iff of_char_Char) (simp, arith)
  then have "char_of n \<in> set ''0123456789abcdefABCDEF''"
    using digits_in_range unfolding list_all_iff by blast
  then show "c \<in> set ''0123456789abcdefABCDEF''" by (simp only: c)
qed

lemma IsHexAddress_syntax: "IsHexAddress s \<longleftrightarrow> address_syntax s"
proof -
  have la: "\<And>h. list_all isHexCharacter h \<longleftrightarrow> set h \<subseteq> set ''0123456789abcdefABCDEF''"
    unfolding list_all_iff isHexCharacter_iff by blast
  show ?thesis
  proof
    assume "IsHexAddress s"
    then obtain h where h: "length h = 40" "list_all isHexCharacter h"
      and s: "s = h \<or> s = ''0x'' @ h \<or> s = ''0X'' @ h"
      unfolding IsHexAddress_iff by blast
    from s show "address_syntax s"
      using h unfolding address_syntax_def la by (elim disjE) simp_all
  next
    assume a: "address_syntax s"
    show "IsHexAddress s"
    proof (cases "length s = 40")
      case True
      then have "set s \<subseteq> set ''0123456789abcdefABCDEF''" using a by (simp add: address_syntax_def)
      then have "list_all isHexCharacter s" unfolding la .
      then show ?thesis unfolding IsHexAddress_iff using True by blast
    next
      case False
      then have l: "length s = 42" and p: "take 2 s = ''0x'' \<or> take 2 s = ''0X''"
        and d: "set (drop 2 s) \<subseteq> set ''0123456789abcdefABCDEF''"
        using a by (auto simp: address_syntax_def)
      have "s = take 2 s @ drop 2 s" by simp
      then have s: "s = ''0x'' @ drop 2 s \<or> s = ''0X'' @ drop 2 s" using p by metis
      have "length (drop 2 s) = 40" using l by simp
      moreover have "list_all isHexCharacter (drop 2 s)" using d unfolding la .
      ultimately show ?thesis unfolding IsHexAddress_iff using s by blast
    qed
  qed
qed

lemma IsHexAddress_addr_noprefix: "IsHexAddress addr_noprefix"
  by (simp add: addr_noprefix_def IsHexAddress_def has0xPrefix_def isHex_def isHexCharacter_def
      AddressLength_def)

lemma HexToAddress_noprefix: "HexToAddress addr_noprefix = HexToAddress addr_lower"
  by (simp add: addr_lower_def addr_noprefix_def HexToAddress_def FromHex_def BytesToAddress_def
      has0xPrefix_def fromHexChar_def AddressLength_def)

text \<open>
  Forty hexadecimal digits without the prefix are taken for an address: the request is
  served, to the account that the prefixed string denotes.
\<close>

theorem SendTokens_unprefixed_address_served:
  "take 2 addr_noprefix \<noteq> ''0x'' \<and> take 2 addr_noprefix \<noteq> ''0X'' \<and>
   fst (SendTokens (world_up 0) faucet0 addr_noprefix) =
     Inr (SignedTx (NewTransaction 7 (HexToAddress addr_lower) 1000 21000 2 None) 45 1 1) \<and>
   usedAddresses (fst (snd (SendTokens (world_up 0) faucet0 addr_noprefix))) addr_noprefix = Some 0"
proof -
  have p: "take 2 addr_noprefix \<noteq> ''0x'' \<and> take 2 addr_noprefix \<noteq> ''0X''"
    by (simp add: addr_noprefix_def)
  have r: "SendTokens (world_up 0) faucet0 addr_noprefix =
     (Inr (SignedTx (NewTransaction 7 (HexToAddress addr_lower) 1000 21000 2 None) 45 1 1),
      faucet0\<lparr>usedAddresses := [addr_noprefix \<mapsto> 0]\<rparr>,
      [MapRead addr_noprefix,
       Call_PendingNonceAt (client faucet0) Background (fromAddress faucet0),
       Call_SuggestGasPrice (client faucet0) Background,
       Call_EstimateGas (client faucet0) Background
         \<lparr>From = fromAddress faucet0, To = Some (HexToAddress addr_lower), Value = 1000\<rparr>,
       Call_SignTx (NewTransaction 7 (HexToAddress addr_lower) 1000 21000 2 None)
         (EIP155Signer 5) 1,
       Call_SendTransaction (client faucet0) Background
         (SignedTx (NewTransaction 7 (HexToAddress addr_lower) 1000 21000 2 None) 45 1 1),
       MapWrite addr_noprefix 0])"
    by (simp add: SendTokens_def Let_def IsHexAddress_addr_noprefix HexToAddress_noprefix
        world_up_def faucet0_def NewEIP155Signer_def)
  show ?thesis using p by (simp add: r)
qed

text \<open>
  Claim C5, as the code has it. A string that is not forty hexadecimal digits, alone or
  after \<open>0x\<close> or \<open>0X\<close>, is refused with the invalid-address error; the trace of the
  call is empty, so the node was not called and the cooldown table neither read nor
  written, and the faucet is unchanged. A string of that format, with or without the
  prefix, is not refused as invalid: the call goes on to read the table.
\<close>

theorem SendTokens_address_syntax:
  "(\<not> address_syntax s \<longrightarrow>
      SendTokens w f s = (Inl (Errorf ''invalid Ethereum address'' []), f, [])) \<and>
   (address_syntax s \<longrightarrow>
      fst (SendTokens w f s) \<noteq> Inl (Errorf ''invalid Ethereum address'' []) \<and>
      (\<exists>tr. snd (snd (SendTokens w f s)) = MapRead s # tr))"
proof (intro conjI impI)
  assume "\<not> address_syntax s"
  then show "SendTokens w f s = (Inl (Errorf ''invalid Ethereum address'' []), f, [])"
    by (simp add: SendTokens_def IsHexAddress_syntax)
next
  assume "address_syntax s"
  then have v: "IsHexAddress s" by (simp add: IsHexAddress_syntax)
  show "fst (SendTokens w f s) \<noteq> Inl (Errorf ''invalid Ethereum address'' [])"
    using v by (auto simp: SendTokens_def Let_def split: option.splits sum.splits)
  show "\<exists>tr. snd (snd (SendTokens w f s)) = MapRead s # tr"
    using v by (auto simp: SendTokens_def Let_def split: option.splits sum.splits)
qed

theorem SendTokens_address_syntax_witness:
  "\<not> address_syntax ''0x12345'' \<and>
   SendTokens (world_up 0) faucet1 ''0x12345'' =
     (Inl (Errorf ''invalid Ethereum address'' []), faucet1, []) \<and>
   address_syntax addr_noprefix \<and>
   fst (SendTokens (world_up 0) faucet1 addr_noprefix) \<noteq>
     Inl (Errorf ''invalid Ethereum address'' [])"
proof -
  have a: "\<not> address_syntax ''0x12345''" by (simp add: address_syntax_def)
  have b: "address_syntax addr_noprefix" by (simp add: address_syntax_def addr_noprefix_def)
  show ?thesis
    using SendTokens_address_syntax [of "''0x12345''" "world_up 0" faucet1] SendTokens_address_syntax [of addr_noprefix "world_up 0" faucet1] a b
    by simp
qed

section \<open>What a call may change\<close>

text \<open>
  Claim C9. After any call \<open>SendTokens w f A\<close>, successful or not, the entry of every
  key other than \<open>A\<close> is what it was, and so are the client, the private key, the
  faucet's address, the chain id, the amount and the cooldown.
\<close>

theorem SendTokens_frame:
  assumes "SendTokens w f A = (res, f', tr)"
  shows "(\<forall>B. B \<noteq> A \<longrightarrow> usedAddresses f' B = usedAddresses f B) \<and>
         client f' = client f \<and> privateKey f' = privateKey f \<and>
         fromAddress f' = fromAddress f \<and> chainID f' = chainID f \<and>
         amount f' = amount f \<and> cooldown f' = cooldown f"
  using assms unfolding SendTokens_def
  by (auto simp: Let_def split: if_splits option.splits sum.splits)

theorem SendTokens_frame_witness:
  "addr_other \<noteq> addr_lower \<and>
   usedAddresses (fst (snd (SendTokens (world_up 7) faucet0 addr_lower))) addr_lower = Some 7 \<and>
   usedAddresses (fst (snd (SendTokens (world_up 7) faucet0 addr_lower))) addr_other =
     usedAddresses faucet0 addr_other \<and>
   amount (fst (snd (SendTokens (world_up 7) faucet0 addr_lower))) = amount faucet0 \<and>
   cooldown (fst (snd (SendTokens (world_up 7) faucet0 addr_lower))) = cooldown faucet0"
  using SendTokens_frame [OF run_world_up, of 7] addr_other_neq_lower
  by (simp add: run_world_up)

section \<open>Durations\<close>

lemma int64_id: "is_int64 x \<Longrightarrow> int64 x = x"
  by (simp add: is_int64_def int64_def minDuration_def maxDuration_def)

lemma uint64_id: "0 \<le> x \<Longrightarrow> x < 2 ^ 64 \<Longrightarrow> uint64 x = x"
  by (simp add: uint64_def)

lemma lessThanHalf_Minute:
  assumes "0 \<le> r" "r < Minute"
  shows "lessThanHalf r Minute \<longleftrightarrow> 2 * r < Minute"
proof -
  have r: "uint64 r = r" using assms by (intro uint64_id) (simp_all add: Minute_def)
  have rr: "uint64 (2 * r) = 2 * r" using assms by (intro uint64_id) (simp_all add: Minute_def)
  have m: "uint64 Minute = Minute" by (simp add: uint64_def Minute_def)
  show ?thesis by (simp add: lessThanHalf_def r rr m)
qed

text \<open>
  Rounding to the minute never leaves the int64 range: the last multiple of a minute below
  the largest duration is less than half a minute away from it.
\<close>

lemma Round_nonneg:
  assumes "0 \<le> d" "d \<le> maxDuration"
  shows "Minute dvd Duration_Round d Minute \<and> 2 * \<bar>Duration_Round d Minute - d\<bar> \<le> Minute
         \<and> is_int64 (Duration_Round d Minute)"
proof -
  define r where "r = d mod Minute"
  define q where "q = d div Minute"
  have mpos: "0 < Minute" by (simp add: Minute_def)
  have dq: "d = q * Minute + r" by (simp add: q_def r_def)
  have r0: "0 \<le> r" and r1: "r < Minute" using mpos by (simp_all add: r_def)
  have q0: "0 \<le> q" using assms mpos by (simp add: q_def pos_imp_zdiv_nonneg_iff)
  have sm: "d smod Minute = r" using assms mpos by (simp add: r_def smod_mod_positive)
  show ?thesis
  proof (cases "2 * r < Minute")
    case True
    have "r \<le> d" using assms(1) by (simp add: r_def zmod_le_nonneg_dividend)
    then have in64: "is_int64 (d - r)"
      using assms r0 by (simp add: is_int64_def minDuration_def maxDuration_def)
    have res: "Duration_Round d Minute = d - r"
      using True assms mpos r0 r1
      by (simp add: Duration_Round_def sm lessThanHalf_Minute int64_id[OF in64] Let_def)
    have "d - r = q * Minute" using dq by simp
    then have dv: "Minute dvd d - r" by simp
    show ?thesis using res dv in64 True r0 by simp
  next
    case False
    have qb: "q \<le> 153722866"
      using assms dq False r0 unfolding Minute_def maxDuration_def by simp
    have up: "d + Minute - r = (q + 1) * Minute" using dq by (simp add: algebra_simps)
    have "is_int64 ((q + 1) * Minute)"
      using qb q0 by (simp add: is_int64_def Minute_def maxDuration_def minDuration_def)
    then have in64: "is_int64 (d + Minute - r)" by (simp only: up)
    have gt: "d + Minute - r > d" using r1 by simp
    have res: "Duration_Round d Minute = d + Minute - r"
      using False assms mpos r0 r1 gt
      by (simp add: Duration_Round_def sm lessThanHalf_Minute int64_id[OF in64] Let_def)
    have dv: "Minute dvd d + Minute - r" unfolding up by simp
    show ?thesis using res dv in64 False r1 by simp
  qed
qed

lemma Round_neg:
  assumes "d < 0" "minDuration \<le> d"
  shows "Minute dvd Duration_Round d Minute \<and> 2 * \<bar>Duration_Round d Minute - d\<bar> \<le> Minute
         \<and> is_int64 (Duration_Round d Minute)"
proof -
  define r where "r = (- d) mod Minute"
  define q where "q = (- d) div Minute"
  have mpos: "0 < Minute" by (simp add: Minute_def)
  have dq: "- d = q * Minute + r" by (simp add: q_def r_def)
  have r0: "0 \<le> r" and r1: "r < Minute" using mpos by (simp_all add: r_def)
  have q0: "0 \<le> q" using assms mpos by (simp add: q_def pos_imp_zdiv_nonneg_iff)
  have sm: "- (d smod Minute) = r" using assms mpos by (simp add: r_def signed_modulo_int_def)
  show ?thesis
  proof (cases "2 * r < Minute")
    case True
    have "r \<le> - d" using assms(1) by (simp add: r_def zmod_le_nonneg_dividend)
    then have in64: "is_int64 (d + r)"
      using assms r0 by (simp add: is_int64_def minDuration_def maxDuration_def)
    have res: "Duration_Round d Minute = d + r"
      using True assms mpos r0 r1
      by (simp add: Duration_Round_def sm lessThanHalf_Minute int64_id[OF in64] Let_def)
    have "d + r = (- q) * Minute" using dq by simp
    then have dv: "Minute dvd d + r" by simp
    show ?thesis using res dv in64 True r0 by simp
  next
    case False
    have qb: "q \<le> 153722866"
      using assms dq False r0 unfolding Minute_def minDuration_def by simp
    have up: "d - Minute + r = - (q + 1) * Minute" using dq by (simp add: algebra_simps)
    have "is_int64 (- (q + 1) * Minute)"
      using qb q0 by (simp add: is_int64_def Minute_def maxDuration_def minDuration_def)
    then have in64: "is_int64 (d - Minute + r)" by (simp only: up)
    have lt: "d - Minute + r < d" using r1 by simp
    have res: "Duration_Round d Minute = d - Minute + r"
      using False assms mpos r0 r1 lt
      by (simp add: Duration_Round_def sm lessThanHalf_Minute int64_id[OF in64] Let_def)
    have dv: "Minute dvd d - Minute + r" unfolding up by simp
    show ?thesis using res dv in64 False r1 by simp
  qed
qed

lemma Round_Minute_nearest:
  "is_int64 d \<Longrightarrow> Minute dvd Duration_Round d Minute \<and> 2 * \<bar>Duration_Round d Minute - d\<bar> \<le> Minute
         \<and> is_int64 (Duration_Round d Minute)"
  using Round_nonneg[of d] Round_neg[of d] by (cases "0 \<le> d") (simp_all add: is_int64_def)

lemma time_Since_nonneg: "t \<le> now \<Longrightarrow> 0 \<le> time_Since now t \<and> time_Since now t \<le> maxDuration"
  by (simp add: time_Since_def time_Sub_def maxDuration_def minDuration_def)

lemma time_Since_exact: "t \<le> now \<Longrightarrow> now - t \<le> maxDuration \<Longrightarrow> time_Since now t = now - t"
  by (simp add: time_Since_def time_Sub_def maxDuration_def minDuration_def)

lemma time_Since_ge: "is_int64 c \<Longrightarrow> c \<le> now - t \<Longrightarrow> c \<le> time_Since now t"
  by (simp add: time_Since_def time_Sub_def is_int64_def)

section \<open>The cooldown\<close>

text \<open>
  Claim C3. Let \<open>A\<close> be an address with the recorded timestamp \<open>T\<close>, a past reading of
  the clock, and let the call read the clock at \<open>T'\<close> with \<open>T' - T\<close> less than the
  cooldown. Then \<open>SendTokens\<close> fails with the cooldown error for \<open>A\<close>; the duration
  \<open>r\<close> in the error is a whole number of minutes and at most half a minute away from
  the remaining wait (the cooldown less the time elapsed at the second reading of the
  clock), and it is printed in the message; the trace is the one read of the table, hence
  without a call to the node; the faucet, and with it the timestamp \<open>T\<close>, is unchanged.
\<close>

theorem SendTokens_cooldown_active:
  assumes A: "IsHexAddress A" and T: "usedAddresses f A = Some T" and c: "is_int64 (cooldown f)"
    and m1: "T \<le> Now w 128" and m2: "Now w 128 \<le> Now w 129"
    and lt: "Now w 128 - T < cooldown f"
  shows "\<exists>r. SendTokens w f A =
            (Inl (Errorf ''address %s can request again in %v'' [ArgString A, ArgDuration r]),
             f, [MapRead A]) \<and>
            Minute dvd r \<and> 2 * \<bar>r - (cooldown f - time_Since (Now w 129) T)\<bar> \<le> Minute \<and>
            Error (DurationString w)
              (Errorf ''address %s can request again in %v'' [ArgString A, ArgDuration r]) =
              ''address '' @ A @ '' can request again in '' @ DurationString w r \<and>
            \<not> is_ledger_call (MapRead A) \<and> usedAddresses f A = Some T"
proof -
  define rem where "rem = cooldown f - time_Since (Now w 129) T"
  have "Now w 128 - T \<le> maxDuration" using lt c by (simp add: is_int64_def)
  then have s1: "time_Since (Now w 128) T = Now w 128 - T" using m1 by (simp add: time_Since_exact)
  have s2: "0 \<le> time_Since (Now w 129) T \<and> time_Since (Now w 129) T \<le> maxDuration"
    using m1 m2 by (intro time_Since_nonneg) simp
  have cpos: "0 < cooldown f" using lt m1 by simp
  have in64: "is_int64 rem"
    using s2 cpos c by (simp add: rem_def is_int64_def minDuration_def maxDuration_def)
  have run: "SendTokens w f A =
     (Inl (Errorf ''address %s can request again in %v''
            [ArgString A, ArgDuration (Duration_Round rem Minute)]), f, [MapRead A])"
    using A T lt by (simp add: SendTokens_def s1 rem_def[symmetric] int64_id[OF in64])
  show ?thesis
    using run Round_Minute_nearest[OF in64] T by (simp add: rem_def)
qed

theorem SendTokens_cooldown_active_witness:
  "IsHexAddress addr_lower \<and> usedAddresses faucet1 addr_lower = Some 0 \<and>
   Now (world_up (30 * Minute)) 128 - 0 < cooldown faucet1 \<and>
   (\<exists>r. SendTokens (world_up (30 * Minute)) faucet1 addr_lower =
          (Inl (Errorf ''address %s can request again in %v''
                 [ArgString addr_lower, ArgDuration r]), faucet1, [MapRead addr_lower]) \<and>
        Minute dvd r \<and> 2 * \<bar>r - 30 * Minute\<bar> \<le> Minute)"
proof -
  have h2: "usedAddresses faucet1 addr_lower = Some 0" by (simp add: faucet1_def)
  have h3: "is_int64 (cooldown faucet1)"
    by (simp add: faucet1_def faucet0_def is_int64_def Hour_def Minute_def minDuration_def
        maxDuration_def)
  have h4: "0 \<le> Now (world_up (30 * Minute)) 128" by (simp add: world_up_def Minute_def)
  have h5: "Now (world_up (30 * Minute)) 128 \<le> Now (world_up (30 * Minute)) 129"
    by (simp add: world_up_def)
  have h6: "Now (world_up (30 * Minute)) 128 - 0 < cooldown faucet1"
    by (simp add: world_up_def faucet1_def faucet0_def Hour_def Minute_def)
  have s: "cooldown faucet1 - time_Since (Now (world_up (30 * Minute)) 129) 0 = 30 * Minute"
    by (simp add: world_up_def faucet1_def faucet0_def Hour_def Minute_def time_Since_def
        time_Sub_def maxDuration_def minDuration_def)
  show ?thesis
    using SendTokens_cooldown_active [OF IsHexAddress_addr_lower h2 h3 h4 h5 h6] h2 h6
      IsHexAddress_addr_lower
    unfolding s by blast
qed

text \<open>
  Claim C4. Let \<open>A\<close> be an address with the recorded timestamp \<open>T\<close>, and let the call
  read the clock at \<open>T'\<close> with \<open>T' \<ge> T + cooldown\<close>. When the node answers the three
  queries, the signing library signs and the node takes the transaction, \<open>SendTokens\<close>
  returns the signed transaction and records for \<open>A\<close> the reading of the clock at the
  moment of recording, and the handler answers 200 with the hash of that transaction.
\<close>

theorem SendTokens_after_expiry:
  assumes A: "IsHexAddress A" and T: "usedAddresses f A = Some T" and c: "is_int64 (cooldown f)"
    and ge: "T + cooldown f \<le> Now w 128"
    and n: "PendingNonceAt w (client f) Background (fromAddress f) = Inr nonce"
    and p: "SuggestGasPrice w (client f) Background = Inr gasPrice"
    and g: "EstimateGas w (client f) Background
              \<lparr>From = fromAddress f, To = Some (HexToAddress A), Value = amount f\<rparr> = Inr gas"
    and s: "SignTx w (NewTransaction nonce (HexToAddress A) (amount f) gas gasPrice None)
              (NewEIP155Signer (chainID f)) (privateKey f) = Inr signedTx"
    and t: "SendTransaction w (client f) Background signedTx = None"
  shows "fst (SendTokens w f A) = Inr signedTx \<and>
         fst (snd (SendTokens w f A)) = f\<lparr>usedAddresses := (usedAddresses f)(A \<mapsto> Now w 181)\<rparr> \<and>
         fst (request_handler w f (Inr A)) =
           (StatusOK, \<lparr>Success = True, Message = ''Tokens sent successfully!'',
                       TxHash = HashHex w signedTx\<rparr>)"
proof -
  have "cooldown f \<le> time_Since (Now w 128) T" using c ge by (intro time_Since_ge) simp_all
  then have nb: "\<not> time_Since (Now w 128) T < cooldown f" by simp
  have run: "SendTokens w f A =
     (Inr signedTx, f\<lparr>usedAddresses := (usedAddresses f)(A \<mapsto> Now w 181)\<rparr>,
      [MapRead A, Call_PendingNonceAt (client f) Background (fromAddress f),
       Call_SuggestGasPrice (client f) Background,
       Call_EstimateGas (client f) Background
         \<lparr>From = fromAddress f, To = Some (HexToAddress A), Value = amount f\<rparr>,
       Call_SignTx (NewTransaction nonce (HexToAddress A) (amount f) gas gasPrice None)
         (NewEIP155Signer (chainID f)) (privateKey f),
       Call_SendTransaction (client f) Background signedTx, MapWrite A (Now w 181)])"
    using A T nb n p g s t by (simp add: SendTokens_def)
  show ?thesis by (simp add: run request_handler_def)
qed

theorem SendTokens_after_expiry_witness:
  "IsHexAddress addr_lower \<and> usedAddresses faucet1 addr_lower = Some 0 \<and>
   0 + cooldown faucet1 \<le> Now (world_up (61 * Minute)) 128 \<and>
   fst (SendTokens (world_up (61 * Minute)) faucet1 addr_lower) =
     Inr (SignedTx (NewTransaction 7 (HexToAddress addr_lower) 1000 21000 2 None) 45 1 1) \<and>
   usedAddresses (fst (snd (SendTokens (world_up (61 * Minute)) faucet1 addr_lower))) addr_lower =
     Some (61 * Minute) \<and>
   TxHash (snd (fst (request_handler (world_up (61 * Minute)) faucet1 (Inr addr_lower)))) =
     ''0x1234''"
proof -
  let ?w = "world_up (61 * Minute)"
  let ?stx = "SignedTx (NewTransaction 7 (HexToAddress addr_lower) 1000 21000 2 None) 45 1 1"
  have h2: "usedAddresses faucet1 addr_lower = Some 0" by (simp add: faucet1_def)
  have h3: "is_int64 (cooldown faucet1)"
    by (simp add: faucet1_def faucet0_def is_int64_def Hour_def Minute_def minDuration_def
        maxDuration_def)
  have h4: "0 + cooldown faucet1 \<le> Now ?w 128"
    by (simp add: world_up_def faucet1_def faucet0_def Hour_def Minute_def)
  have n: "PendingNonceAt ?w (client faucet1) Background (fromAddress faucet1) = Inr 7"
    by (simp add: world_up_def)
  have p: "SuggestGasPrice ?w (client faucet1) Background = Inr 2"
    by (simp add: world_up_def)
  have g: "EstimateGas ?w (client faucet1) Background
      \<lparr>From = fromAddress faucet1, To = Some (HexToAddress addr_lower), Value = amount faucet1\<rparr> =
      Inr 21000"
    by (simp add: world_up_def)
  have s: "SignTx ?w (NewTransaction 7 (HexToAddress addr_lower) (amount faucet1) 21000 2 None)
      (NewEIP155Signer (chainID faucet1)) (privateKey faucet1) = Inr ?stx"
    by (simp add: world_up_def faucet1_def faucet0_def)
  have t: "SendTransaction ?w (client faucet1) Background ?stx = None"
    by (simp add: world_up_def)
  have hh: "HashHex ?w ?stx = ''0x1234''" by (simp add: world_up_def)
  have nw: "Now ?w 181 = 61 * Minute" by (simp add: world_up_def)
  show ?thesis
    using SendTokens_after_expiry [OF IsHexAddress_addr_lower h2 h3 h4 n p g s t] h2 h4 IsHexAddress_addr_lower
    by (simp add: hh nw)
qed

section \<open>Decimal strings\<close>

text \<open>Every integer has a decimal string, and parsing that string gives the integer back.\<close>

lemma of_char_digit_char: "d < 10 \<Longrightarrow> (of_char (digit_char d) :: nat) = 48 + d"
  by (simp add: digit_char_def)

lemma isDigit_digit_char: "d < 10 \<Longrightarrow> isDigit (digit_char d)"
  by (simp add: isDigit_def of_char_digit_char)

lemma decimal_not_Nil: "decimal n \<noteq> []"
  by (subst decimal.simps) simp

lemma decimal_digits: "list_all isDigit (decimal n)"
proof (induction n rule: decimal.induct)
  case (1 n)
  show ?case
  proof (cases "n < 10")
    case True
    then show ?thesis by (subst decimal.simps) (simp add: isDigit_digit_char)
  next
    case False
    then show ?thesis using 1 by (subst decimal.simps) (simp add: isDigit_digit_char)
  qed
qed

lemma decimal_value:
  "foldl (\<lambda>n c. n * 10 + (of_char c - of_char CHR ''0'')) 0 (decimal n) = n"
proof (induction n rule: decimal.induct)
  case (1 n)
  show ?case
  proof (cases "n < 10")
    case True
    then show ?thesis by (subst decimal.simps) (simp add: of_char_digit_char)
  next
    case False
    then show ?thesis using 1 by (subst decimal.simps) (simp add: of_char_digit_char)
  qed
qed

lemma parse_digits_decimal: "parse_digits (decimal n) = Some n"
  using decimal_value[of n] by (simp add: parse_digits_def decimal_not_Nil decimal_digits)

lemma isDigit_not_sign: "isDigit c \<Longrightarrow> c \<noteq> CHR ''-'' \<and> c \<noteq> CHR ''+''"
  by (auto simp: isDigit_def)

lemma parse_int_decimal: "parse_int (decimal n) = Some (int n)"
proof -
  obtain c cs where cs: "decimal n = c # cs" using decimal_not_Nil by (cases "decimal n") auto
  have "isDigit c" using decimal_digits[of n] by (simp add: cs)
  then have "c \<noteq> CHR ''-'' \<and> c \<noteq> CHR ''+''" by (rule isDigit_not_sign)
  then show ?thesis using parse_digits_decimal[of n] by (simp add: parse_int_def cs)
qed

lemma parse_int_Itoa: "parse_int (Itoa n) = Some n"
  by (simp add: Itoa_def parse_int_decimal) (simp add: parse_int_def parse_digits_decimal)

lemma Itoa_not_Nil: "Itoa n \<noteq> []"
  by (simp add: Itoa_def decimal_not_Nil)

lemma Atoi_Itoa: "is_int64 n \<Longrightarrow> Atoi (Itoa n) = Inr n"
  by (simp add: Atoi_def parse_int_Itoa)

lemma parse_int_Some_iff:
  "(\<exists>n. parse_int s = Some n) \<longleftrightarrow>
     (\<exists>ds. ds \<noteq> [] \<and> list_all isDigit ds \<and> (s = ds \<or> s = CHR ''-'' # ds \<or> s = CHR ''+'' # ds))"
  by (cases s) (auto simp: parse_int_def parse_digits_def dest: isDigit_not_sign)

section \<open>Start-up\<close>

text \<open>A faucet that \<open>NewFaucet\<close> returned: where its fields come from.\<close>

lemma NewFaucet_success:
  assumes "NewFaucet st = Inr f"
  shows "parse_int (amountStr st) = Some (amount f) \<and>
      (\<exists>h. Atoi (cooldownStr st) = Inr h \<and> cooldown f = int64 (h * Hour)) \<and>
      ChainID st (client f) Background = Inr (chainID f) \<and> usedAddresses f = Map.empty"
proof -
  let ?url = "if Getenv st ''RPC_URL'' = [] then ''http://localhost:8545'' else Getenv st ''RPC_URL''"
  obtain cl where d: "Dial st ?url = Inr cl"
    using assms by (cases "Dial st ?url") (simp_all add: NewFaucet_def)
  have k0: "Getenv st ''PRIVATE_KEY'' \<noteq> []"
    using assms d by (auto simp: NewFaucet_def)
  obtain key where k: "HexToECDSA st (Getenv st ''PRIVATE_KEY'') = Inr key"
    using assms d k0 by (cases "HexToECDSA st (Getenv st ''PRIVATE_KEY'')") (simp_all add: NewFaucet_def)
  obtain pub where pk: "Public st key = ECDSA_PublicKey pub"
    using assms d k0 k by (cases "Public st key") (simp_all add: NewFaucet_def)
  obtain cid where ci: "ChainID st cl Background = Inr cid"
    using assms d k0 k pk by (cases "ChainID st cl Background") (simp_all add: NewFaucet_def)
  obtain amt where am: "big_SetString (amountStr st) = Some amt"
    using assms d k0 k pk ci
    by (cases "big_SetString (amountStr st)") (simp_all add: NewFaucet_def amountStr_def)
  obtain h where at: "Atoi (cooldownStr st) = Inr h"
    using assms d k0 k pk ci am
    by (cases "Atoi (cooldownStr st)") (simp_all add: NewFaucet_def amountStr_def cooldownStr_def)
  have "f = \<lparr>client = cl, privateKey = key, fromAddress = PubkeyToAddress st pub, chainID = cid,
                amount = amt, usedAddresses = Map.empty, cooldown = int64 (h * Hour)\<rparr>"
    using assms d k0 k pk ci am at by (simp add: NewFaucet_def amountStr_def cooldownStr_def)
  then show ?thesis using am at ci by (simp add: big_SetString_def)
qed

lemma NewFaucet_startup0:
  "NewFaucet (startup0 ''1000'' ''1'') = Inr (faucet0\<lparr>client := Client ''http://localhost:8545''\<rparr>)"
  by (simp add: NewFaucet_def startup0_def big_SetString_def Atoi_def parse_int_def parse_digits_def
      isDigit_def is_int64_def maxDuration_def minDuration_def faucet0_def int64_def Hour_def Minute_def)

lemma run_balance:
  "GetBalance (world_up 0) faucet0 =
     (Inr 5000, [Call_BalanceAt (client faucet0) Background (fromAddress faucet0)])"
  by (simp add: GetBalance_def world_up_def)

section \<open>Contexts of the node calls\<close>

text \<open>A served request: its call for the pending nonce runs under the background context.\<close>

theorem SendTokens_background_context:
  "Call_PendingNonceAt (client faucet0) Background (fromAddress faucet0) \<in>
     set (snd (snd (SendTokens (world_up 0) faucet0 addr_lower))) \<and>
   call_context (Call_PendingNonceAt (client faucet0) Background (fromAddress faucet0)) =
     Some Background \<and>
   \<not> has_deadline Background \<and> \<not> cancellable Background"
  by (simp add: run_world_up)

text \<open>
  Claim C7, as the code has it. Every call that \<open>SendTokens\<close> or \<open>GetBalance\<close> makes
  to the node is passed the background context, which has no deadline and cannot be
  cancelled: the program puts no bound on the time a call to the node may take.
\<close>

theorem ledger_calls_use_Background:
  "(SendTokens w f A = (res, f', tr) \<and> e \<in> set tr \<and> call_context e = Some ctx \<longrightarrow>
      ctx = Background \<and> \<not> has_deadline ctx \<and> \<not> cancellable ctx) \<and>
   (GetBalance w f = (bal, tr') \<and> e' \<in> set tr' \<and> call_context e' = Some ctx' \<longrightarrow>
      ctx' = Background \<and> \<not> has_deadline ctx' \<and> \<not> cancellable ctx')"
proof (intro conjI impI)
  assume "SendTokens w f A = (res, f', tr) \<and> e \<in> set tr \<and> call_context e = Some ctx"
  then have "ctx = Background"
    unfolding SendTokens_def by (auto simp: Let_def split: if_splits option.splits sum.splits)
  then show "ctx = Background" "\<not> has_deadline ctx" "\<not> cancellable ctx" by simp_all
next
  assume "GetBalance w f = (bal, tr') \<and> e' \<in> set tr' \<and> call_context e' = Some ctx'"
  then have "ctx' = Background"
    unfolding GetBalance_def by (auto split: sum.splits)
  then show "ctx' = Background" "\<not> has_deadline ctx'" "\<not> cancellable ctx'" by simp_all
qed

theorem ledger_calls_use_Background_witness:
  "Call_SendTransaction (client faucet0) Background
      (SignedTx (NewTransaction 7 (HexToAddress addr_lower) 1000 21000 2 None) 45 1 1)
     \<in> set (snd (snd (SendTokens (world_up 0) faucet0 addr_lower))) \<and>
   Call_BalanceAt (client faucet0) Background (fromAddress faucet0)
     \<in> set (snd (GetBalance (world_up 0) faucet0)) \<and>
   \<not> has_deadline Background \<and> \<not> cancellable Background"
  using ledger_calls_use_Background [of "world_up 0" faucet0 addr_lower _ _ _
      "Call_SendTransaction (client faucet0) Background
        (SignedTx (NewTransaction 7 (HexToAddress addr_lower) 1000 21000 2 None) 45 1 1)"
      Background _ _ "Call_BalanceAt (client faucet0) Background (fromAddress faucet0)" Background]
  by (simp add: run_world_up run_balance)

section \<open>The key of the cooldown table\<close>

text \<open>
  Claim C2, on the code. The table is keyed by the request string as it came.
  \<open>addr_lower\<close> and \<open>addr_upper\<close> denote the same account. After the first request for
  \<open>addr_lower\<close> is served at time 0, a second request for \<open>addr_lower\<close> half an hour
  later is refused for another thirty minutes, while a request for \<open>addr_upper\<close> at that
  moment is served: it sends the amount to the same account again and gets an entry of
  its own.
\<close>

theorem SendTokens_other_casing_is_served:
  "HexToAddress addr_upper = HexToAddress addr_lower \<and>
   fst (snd (SendTokens (world_up 0) faucet0 addr_lower)) = faucet1 \<and>
   fst (SendTokens (world_up (30 * Minute)) faucet1 addr_lower) =
     Inl (Errorf ''address %s can request again in %v''
            [ArgString addr_lower, ArgDuration (30 * Minute)]) \<and>
   fst (SendTokens (world_up (30 * Minute)) faucet1 addr_upper) =
     Inr (SignedTx (NewTransaction 7 (HexToAddress addr_lower) 1000 21000 2 None) 45 1 1) \<and>
   usedAddresses (fst (snd (SendTokens (world_up (30 * Minute)) faucet1 addr_upper))) addr_upper =
     Some (30 * Minute)"
proof -
  have a: "fst (snd (SendTokens (world_up 0) faucet0 addr_lower)) = faucet1"
    by (simp add: run_world_up faucet1_def)
  have b: "fst (SendTokens (world_up (30 * Minute)) faucet1 addr_lower) =
     Inl (Errorf ''address %s can request again in %v''
            [ArgString addr_lower, ArgDuration (30 * Minute)])"
    by (simp add: SendTokens_def IsHexAddress_addr_lower faucet1_def faucet0_def world_up_def
        time_Since_def time_Sub_def Hour_def Minute_def maxDuration_def minDuration_def
        Duration_Round_def lessThanHalf_def uint64_def int64_def Let_def)
  have c: "SendTokens (world_up (30 * Minute)) faucet1 addr_upper =
     (Inr (SignedTx (NewTransaction 7 (HexToAddress addr_lower) 1000 21000 2 None) 45 1 1),
      faucet1\<lparr>usedAddresses := (usedAddresses faucet1)(addr_upper \<mapsto> 30 * Minute)\<rparr>,
      [MapRead addr_upper,
       Call_PendingNonceAt (client faucet1) Background (fromAddress faucet1),
       Call_SuggestGasPrice (client faucet1) Background,
       Call_EstimateGas (client faucet1) Background
         \<lparr>From = fromAddress faucet1, To = Some (HexToAddress addr_lower), Value = 1000\<rparr>,
       Call_SignTx (NewTransaction 7 (HexToAddress addr_lower) 1000 21000 2 None)
         (EIP155Signer 5) 1,
       Call_SendTransaction (client faucet1) Background
         (SignedTx (NewTransaction 7 (HexToAddress addr_lower) 1000 21000 2 None) 45 1 1),
       MapWrite addr_upper (30 * Minute)])"
    by (simp add: SendTokens_def Let_def IsHexAddress_addr_upper HexToAddress_casing
        NewEIP155Signer_def world_up_def faucet1_def faucet0_def addr_upper_neq_lower)
  show ?thesis by (simp add: a b c HexToAddress_casing)
qed

section \<open>The configured amount and cooldown\<close>

text \<open>A negative amount is taken: \<open>-1\<close> is no unsigned number, and the faucet gets built.\<close>

theorem NewFaucet_negative_amount:
  "\<not> isl (NewFaucet (startup0 ''-1'' ''24'')) \<and>
   amount (projr (NewFaucet (startup0 ''-1'' ''24''))) = - 1 \<and>
   parse_digits ''-1'' = None"
  by (simp add: NewFaucet_def startup0_def big_SetString_def Atoi_def parse_int_def parse_digits_def
      isDigit_def is_int64_def maxDuration_def minDuration_def)

text \<open>
  Claim C8, as the code has it. \<open>NewFaucet\<close> returns a faucet only when the amount
  string (the default when empty) is a decimal integer with an optional sign, whose value
  is the amount, and the cooldown string (the default when empty) is such an integer in
  the int64 range; it returns an error when the amount string is no such integer, and when
  the cooldown string is not accepted by \<open>Atoi\<close>.
\<close>

theorem NewFaucet_amount_and_cooldown:
  "(NewFaucet st = Inr f \<longrightarrow>
      parse_int (amountStr st) = Some (amount f) \<and>
      (\<exists>h. Atoi (cooldownStr st) = Inr h \<and> cooldown f = int64 (h * Hour))) \<and>
   (parse_int (amountStr st) = None \<longrightarrow> isl (NewFaucet st)) \<and>
   (isl (Atoi (cooldownStr st)) \<longrightarrow> isl (NewFaucet st))"
proof (intro conjI impI)
  assume "parse_int (amountStr st) = None"
  then show "isl (NewFaucet st)"
    using NewFaucet_success[of st] by (cases "NewFaucet st") auto
next
  assume "isl (Atoi (cooldownStr st))"
  then show "isl (NewFaucet st)"
    using NewFaucet_success[of st] by (cases "NewFaucet st") auto
qed (use NewFaucet_success in blast)+

theorem NewFaucet_amount_and_cooldown_witness:
  "NewFaucet (startup0 ''1000'' ''1'') = Inr faucet0 \<and>
   parse_int (amountStr (startup0 ''1000'' ''1'')) = Some 1000 \<and>
   parse_int (amountStr (startup0 ''12x'' ''1'')) = None \<and>
   isl (NewFaucet (startup0 ''12x'' ''1'')) \<and>
   isl (Atoi (cooldownStr (startup0 ''1000'' ''1.5''))) \<and>
   isl (NewFaucet (startup0 ''1000'' ''1.5''))"
proof -
  have nf: "NewFaucet (startup0 ''1000'' ''1'') = Inr faucet0"
    using NewFaucet_startup0 by (simp add: faucet0_def)
  have a: "parse_int (amountStr (startup0 ''12x'' ''1'')) = None"
    by (simp add: amountStr_def startup0_def parse_int_def parse_digits_def isDigit_def)
  have b: "isl (Atoi (cooldownStr (startup0 ''1000'' ''1.5'')))"
    by (simp add: cooldownStr_def startup0_def Atoi_def parse_int_def parse_digits_def isDigit_def)
  show ?thesis
    using NewFaucet_amount_and_cooldown [of "startup0 ''1000'' ''1''" faucet0] NewFaucet_amount_and_cooldown [of "startup0 ''12x'' ''1''" faucet0]
      NewFaucet_amount_and_cooldown [of "startup0 ''1000'' ''1.5''" faucet0] nf a b
    by (simp add: faucet0_def)
qed

text \<open>An integer beyond the int64 range is refused as cooldown.\<close>

theorem NewFaucet_cooldown_out_of_range:
  "parse_int ''9223372036854775808'' = Some 9223372036854775808 \<and>
   NewFaucet (startup0 ''1000'' ''9223372036854775808'') = Inl (Errorf ''invalid COOLDOWN_HOURS'' [])"
  by (simp add: NewFaucet_def startup0_def big_SetString_def Atoi_def parse_int_def parse_digits_def
      isDigit_def is_int64_def maxDuration_def minDuration_def)

text \<open>
  Claim C10, as the code has it. For every integer \<open>n\<close> of the range of a 64-bit int,
  zero and negative ones included, \<open>NewFaucet\<close> takes any string that denotes \<open>n\<close>
  (decimal digits after an optional sign) as cooldown hours when the rest of the start-up
  succeeds, and the cooldown is \<open>n\<close> hours as an int64. With a cooldown that is not
  positive, a request for an address whose recorded timestamp, if any, is a past reading
  of the clock is never refused for the cooldown: the call goes on to ask the node for the
  nonce.
\<close>

theorem NewFaucet_cooldown_hours_unchecked:
  "(is_int64 n \<and> parse_int (Getenv st ''COOLDOWN_HOURS'') = Some n \<and>
    Dial st (if Getenv st ''RPC_URL'' = [] then ''http://localhost:8545''
             else Getenv st ''RPC_URL'') = Inr cl \<and>
    Getenv st ''PRIVATE_KEY'' \<noteq> [] \<and>
    HexToECDSA st (Getenv st ''PRIVATE_KEY'') = Inr key \<and>
    Public st key = ECDSA_PublicKey pub \<and>
    ChainID st cl Background = Inr cid \<and>
    big_SetString (amountStr st) = Some amt \<longrightarrow>
      NewFaucet st =
        Inr \<lparr>client = cl, privateKey = key, fromAddress = PubkeyToAddress st pub, chainID = cid,
             amount = amt, usedAddresses = Map.empty, cooldown = int64 (n * Hour)\<rparr>) \<and>
   (IsHexAddress A \<and> cooldown f \<le> 0 \<and>
    (\<forall>T. usedAddresses f A = Some T \<longrightarrow> T \<le> Now w 128) \<longrightarrow>
      (\<exists>tr. snd (snd (SendTokens w f A)) =
           MapRead A # Call_PendingNonceAt (client f) Background (fromAddress f) # tr) \<and>
      (\<forall>r. fst (SendTokens w f A) \<noteq>
           Inl (Errorf ''address %s can request again in %v'' [ArgString A, ArgDuration r])))"
proof (intro conjI impI)
  assume h: "is_int64 n \<and> parse_int (Getenv st ''COOLDOWN_HOURS'') = Some n \<and>
    Dial st (if Getenv st ''RPC_URL'' = [] then ''http://localhost:8545''
             else Getenv st ''RPC_URL'') = Inr cl \<and>
    Getenv st ''PRIVATE_KEY'' \<noteq> [] \<and>
    HexToECDSA st (Getenv st ''PRIVATE_KEY'') = Inr key \<and>
    Public st key = ECDSA_PublicKey pub \<and>
    ChainID st cl Background = Inr cid \<and>
    big_SetString (amountStr st) = Some amt"
  then have n: "is_int64 n" and e: "parse_int (Getenv st ''COOLDOWN_HOURS'') = Some n"
    by simp_all
  have ne: "Getenv st ''COOLDOWN_HOURS'' \<noteq> []" using e by (auto simp: parse_int_def)
  have at: "Atoi (Getenv st ''COOLDOWN_HOURS'') = Inr n" using n e by (simp add: Atoi_def)
  show "NewFaucet st =
        Inr \<lparr>client = cl, privateKey = key, fromAddress = PubkeyToAddress st pub, chainID = cid,
             amount = amt, usedAddresses = Map.empty, cooldown = int64 (n * Hour)\<rparr>"
    using h by (simp add: NewFaucet_def amountStr_def ne at)
next
  assume h: "IsHexAddress A \<and> cooldown f \<le> 0 \<and>
    (\<forall>T. usedAddresses f A = Some T \<longrightarrow> T \<le> Now w 128)"
  have nb: "\<And>T. usedAddresses f A = Some T \<Longrightarrow> \<not> time_Since (Now w 128) T < cooldown f"
    using h time_Since_nonneg by fastforce
  show "\<exists>tr. snd (snd (SendTokens w f A)) =
           MapRead A # Call_PendingNonceAt (client f) Background (fromAddress f) # tr"
    using h nb by (auto simp: SendTokens_def Let_def split: option.splits sum.splits)
  show "\<forall>r. fst (SendTokens w f A) \<noteq>
           Inl (Errorf ''address %s can request again in %v'' [ArgString A, ArgDuration r])"
    using h nb by (auto simp: SendTokens_def Let_def split: option.splits sum.splits)
qed

theorem NewFaucet_cooldown_hours_unchecked_witness:
  "parse_int ''-5'' = Some (- 5) \<and> parse_int ''+0'' = Some 0 \<and>
   NewFaucet (startup0 ''1000'' ''-5'') = Inr (faucet0\<lparr>cooldown := int64 (- 5 * Hour)\<rparr>) \<and>
   NewFaucet (startup0 ''1000'' ''+0'') = Inr (faucet0\<lparr>cooldown := int64 (0 * Hour)\<rparr>) \<and>
   cooldown faucet_neg \<le> 0 \<and> usedAddresses faucet_neg addr_lower = Some 0 \<and>
   (\<exists>tr. snd (snd (SendTokens (world_up 0) faucet_neg addr_lower)) =
      MapRead addr_lower #
      Call_PendingNonceAt (client faucet_neg) Background (fromAddress faucet_neg) # tr)"
proof -
  have n: "is_int64 (- 5)" "is_int64 0" by (simp_all add: is_int64_def minDuration_def maxDuration_def)
  have p5: "parse_int ''-5'' = Some (- 5)" and p0: "parse_int ''+0'' = Some 0"
    by (simp_all add: parse_int_def parse_digits_def isDigit_def)
  have c: "cooldown faucet_neg \<le> 0"
    by (simp add: faucet_neg_def int64_def Hour_def Minute_def)
  have u: "usedAddresses faucet_neg addr_lower = Some 0"
    by (simp add: faucet_neg_def faucet1_def)
  have t: "\<forall>T. usedAddresses faucet_neg addr_lower = Some T \<longrightarrow> T \<le> Now (world_up 0) 128"
    by (simp add: u world_up_def)
  have g5: "Getenv (startup0 ''1000'' ''-5'') ''COOLDOWN_HOURS'' = ''-5''"
    and g0: "Getenv (startup0 ''1000'' ''+0'') ''COOLDOWN_HOURS'' = ''+0''"
    by (simp_all add: startup0_def)
  have am: "\<And>c. big_SetString (amountStr (startup0 ''1000'' c)) = Some 1000"
    by (simp add: startup0_def amountStr_def big_SetString_def parse_int_def parse_digits_def
        isDigit_def)
  have rest: "\<And>c. Dial (startup0 ''1000'' c)
        (if Getenv (startup0 ''1000'' c) ''RPC_URL'' = [] then ''http://localhost:8545''
         else Getenv (startup0 ''1000'' c) ''RPC_URL'') = Inr (Client ''http://localhost:8545'') \<and>
      Getenv (startup0 ''1000'' c) ''PRIVATE_KEY'' \<noteq> [] \<and>
      HexToECDSA (startup0 ''1000'' c) (Getenv (startup0 ''1000'' c) ''PRIVATE_KEY'') = Inr 1 \<and>
      Public (startup0 ''1000'' c) 1 = ECDSA_PublicKey 1 \<and>
      ChainID (startup0 ''1000'' c) (Client ''http://localhost:8545'') Background = Inr 5 \<and>
      PubkeyToAddress (startup0 ''1000'' c) 1 = replicate 20 1"
    by (simp add: startup0_def)
  show ?thesis
    using NewFaucet_cooldown_hours_unchecked [of "- 5" "startup0 ''1000'' ''-5''" "Client ''http://localhost:8545''" 1 1 5 1000
        addr_lower faucet_neg "world_up 0"]
      NewFaucet_cooldown_hours_unchecked [of 0 "startup0 ''1000'' ''+0''" "Client ''http://localhost:8545''" 1 1 5 1000
        addr_lower faucet_neg "world_up 0"]
      n c u t IsHexAddress_addr_lower p5 p0 rest [of "''-5''"] rest [of "''+0''"]
      am [of "''-5''"] am [of "''+0''"]
    by (simp add: g5 g0 faucet0_def)
qed

section \<open>The faucets that can arise\<close>



lemma SendTokens_keeps_table:
  assumes run: "SendTokens w f A = (res, f', tr)"
    and inv: "\<forall>k T. usedAddresses f k = Some T \<longrightarrow> IsHexAddress k \<and> T \<le> t0"
    and clk: "t0 \<le> Now w 181"
  shows "\<forall>k T. usedAddresses f' k = Some T \<longrightarrow> IsHexAddress k \<and> T \<le> Now w 181"
proof (intro allI impI)
  fix k T
  assume kT: "usedAddresses f' k = Some T"
  show "IsHexAddress k \<and> T \<le> Now w 181"
  proof (cases "f' = f")
    case True
    then show ?thesis using kT inv clk by fastforce
  next
    case False
    then have f': "f' = f\<lparr>usedAddresses := (usedAddresses f)(A \<mapsto> Now w 181)\<rparr>" and A: "IsHexAddress A"
      using run unfolding SendTokens_def
      by (auto simp: Let_def split: if_splits option.splits sum.splits)
    show ?thesis
    proof (cases "k = A")
      case True
      then show ?thesis using kT f' A by simp
    next
      case False
      then have "usedAddresses f k = Some T" using kT f' by simp
      then show ?thesis using inv clk by fastforce
    qed
  qed
qed

section \<open>The transaction that is signed\<close>

text \<open>
  Whatever the run, a transaction that reaches the signing library is the transfer of the
  request, built from the answers of the node.
\<close>

lemma SendTokens_signs_only_the_transfer:
  assumes "SendTokens w f A = (res, f', tr)" and "Call_SignTx tx signer key \<in> set tr"
  shows "(\<exists>n gp g.
           PendingNonceAt w (client f) Background (fromAddress f) = Inr n \<and>
           SuggestGasPrice w (client f) Background = Inr gp \<and>
           EstimateGas w (client f) Background
             \<lparr>From = fromAddress f, To = Some (HexToAddress A), Value = amount f\<rparr> = Inr g \<and>
           tx = \<lparr>tx_nonce = n, tx_to = Some (HexToAddress A), tx_amount = amount f,
                 tx_gasLimit = g, tx_gasPrice = gp, tx_data = None\<rparr>) \<and>
         signer = EIP155Signer (chainID f) \<and> key = privateKey f \<and>
         (\<forall>stx. res = Inr stx \<longrightarrow> SignTx w tx signer key = Inr stx) \<and>
         (\<forall>st. NewFaucet st = Inr f \<longrightarrow> ChainID st (client f) Background = Inr (chainID f))"
proof -
  have a: "(\<exists>n gp g.
           PendingNonceAt w (client f) Background (fromAddress f) = Inr n \<and>
           SuggestGasPrice w (client f) Background = Inr gp \<and>
           EstimateGas w (client f) Background
             \<lparr>From = fromAddress f, To = Some (HexToAddress A), Value = amount f\<rparr> = Inr g \<and>
           tx = \<lparr>tx_nonce = n, tx_to = Some (HexToAddress A), tx_amount = amount f,
                 tx_gasLimit = g, tx_gasPrice = gp, tx_data = None\<rparr>) \<and>
         signer = EIP155Signer (chainID f) \<and> key = privateKey f \<and>
         (\<forall>stx. res = Inr stx \<longrightarrow> SignTx w tx signer key = Inr stx)"
    using assms unfolding SendTokens_def
    by (auto simp: Let_def NewTransaction_def NewEIP155Signer_def
        split: if_splits option.splits sum.splits)
  show ?thesis using a NewFaucet_success by blast
qed







end
